theory Spec2Isabelle
  imports Main "HOL-Library.Multiset" "HOL-Library.Char_ord" "HOL-Library.List_Lexorder"
begin

section \<open>JavaScript values\<close>

text \<open>
  The route handlers of \<^verbatim>\<open>server/routes/couriers.js\<close> and
  \<^verbatim>\<open>server/routes/reports.js\<close> read JSON request bodies, hand values to the
  database driver and build JSON replies. A value is one of JavaScript's: numbers are
  the integers (identifiers, counts; a JSON body cannot carry \<^verbatim>\<open>NaN\<close>), an object
  is the list of its properties in the order they were written.
\<close>

datatype jsval =
    JUndefined
  | JNull
  | JBool bool
  | JNum int
  | JStr string
  | JArr "jsval list"
  | JObj "(string \<times> jsval) list"

type_synonym row = "(string \<times> jsval) list"

text \<open>\<^verbatim>\<open>!v\<close> is true exactly for the falsy values.\<close>

fun truthy :: "jsval \<Rightarrow> bool" where
  "truthy JUndefined = False"
| "truthy JNull = False"
| "truthy (JBool b) = b"
| "truthy (JNum n) = (n \<noteq> 0)"
| "truthy (JStr s) = (s \<noteq> [])"
| "truthy (JArr xs) = True"
| "truthy (JObj ps) = True"

text \<open>Reading a property: \<^verbatim>\<open>undefined\<close> when the object has none of that name.\<close>

definition js_get :: "row \<Rightarrow> string \<Rightarrow> jsval" where
  "js_get obj k = (case map_of obj k of None \<Rightarrow> JUndefined | Some v \<Rightarrow> v)"

text \<open>String conversion, as a template literal \<^verbatim>\<open>${v}\<close> does it.\<close>

definition digit_char :: "nat \<Rightarrow> char" where
  "digit_char d = char_of (48 + d)"

function show_nat :: "nat \<Rightarrow> string" where
  "show_nat n = (if n < 10 then [digit_char n] else show_nat (n div 10) @ [digit_char (n mod 10)])"
  by pat_completeness auto
termination
  by (relation "measure (\<lambda>n. n)") auto

declare show_nat.simps [simp del]

definition show_int :: "int \<Rightarrow> string" where
  "show_int i = (if i < 0 then CHR ''-'' # show_nat (nat (- i)) else show_nat (nat i))"

fun join_comma :: "string list \<Rightarrow> string" where
  "join_comma [] = []"
| "join_comma [s] = s"
| "join_comma (s # t # ss) = s @ CHR '','' # join_comma (t # ss)"

fun to_string :: "jsval \<Rightarrow> string" where
  "to_string JUndefined = ''undefined''"
| "to_string JNull = ''null''"
| "to_string (JBool b) = (if b then ''true'' else ''false'')"
| "to_string (JNum n) = show_int n"
| "to_string (JStr s) = s"
| "to_string (JArr xs) =
     join_comma (map (\<lambda>x. if x = JUndefined \<or> x = JNull then [] else to_string x) xs)"
| "to_string (JObj ps) = ''[object Object]''"

section \<open>The connection pool\<close>

text \<open>
  \<^verbatim>\<open>pool\<close> comes from \<^verbatim>\<open>../database\<close>, which is outside the two route
  modules, so it is a parameter. \<^verbatim>\<open>await pool.query(sql, params)\<close> either throws
  an error (\<open>Inl\<close> of its \<^verbatim>\<open>message\<close>) or resolves to an array whose first
  element the handlers take apart:
  \<^item> for a \<^verbatim>\<open>SELECT\<close>, the array of row objects;
  \<^item> for a \<^verbatim>\<open>CALL\<close>, the result sets the routine produced (followed by a header
    the handlers never read);
  \<^item> for a \<^verbatim>\<open>DELETE\<close>, a header the handlers never read.
  The database is of any type \<open>'db\<close>; every statement may change it.
\<close>

record 'db pool =
  query_select :: "string \<Rightarrow> jsval list \<Rightarrow> 'db \<Rightarrow> (string + row list) \<times> 'db"
  query_call :: "string \<Rightarrow> jsval list \<Rightarrow> 'db \<Rightarrow> (string + row list list) \<times> 'db"
  query_exec :: "string \<Rightarrow> jsval list \<Rightarrow> 'db \<Rightarrow> (string + unit) \<times> 'db"

text \<open>
  What a handler runs against: the database, and the statements issued so far with
  their parameters, oldest first.
\<close>

record 'db conn =
  db :: 'db
  issued :: "(string \<times> jsval list) list"

definition pool_select ::
  "'db pool \<Rightarrow> string \<Rightarrow> jsval list \<Rightarrow> 'db conn \<Rightarrow> (string + row list) \<times> 'db conn" where
  "pool_select p sql ps s =
     (case query_select p sql ps (db s) of
        (r, d) \<Rightarrow> (r, \<lparr>db = d, issued = issued s @ [(sql, ps)]\<rparr>))"

definition pool_call ::
  "'db pool \<Rightarrow> string \<Rightarrow> jsval list \<Rightarrow> 'db conn \<Rightarrow> (string + row list list) \<times> 'db conn" where
  "pool_call p sql ps s =
     (case query_call p sql ps (db s) of
        (r, d) \<Rightarrow> (r, \<lparr>db = d, issued = issued s @ [(sql, ps)]\<rparr>))"

definition pool_exec ::
  "'db pool \<Rightarrow> string \<Rightarrow> jsval list \<Rightarrow> 'db conn \<Rightarrow> (string + unit) \<times> 'db conn" where
  "pool_exec p sql ps s =
     (case query_exec p sql ps (db s) of
        (r, d) \<Rightarrow> (r, \<lparr>db = d, issued = issued s @ [(sql, ps)]\<rparr>))"

section \<open>Requests and replies\<close>

text \<open>
  Of a request the handlers read \<^verbatim>\<open>req.params.id\<close>, a string, and the properties
  of \<^verbatim>\<open>req.body\<close>, the object the JSON body parser made of the body (the parser is
  installed outside the two modules). Of a reply they set the status code and the object
  given to \<^verbatim>\<open>res.json\<close>; a property whose value is \<^verbatim>\<open>undefined\<close> is left out
  when that object is written as JSON. What the handlers print with
  \<^verbatim>\<open>console.error\<close> is not part of the model.
\<close>

record request =
  params_id :: string
  body :: row

record response =
  code :: nat
  json :: row

text \<open>\<^verbatim>\<open>res.status(c).json(b)\<close>; \<^verbatim>\<open>res.json(b)\<close> alone replies 200.\<close>

definition reply :: "nat \<Rightarrow> row \<Rightarrow> response" where
  "reply c b = \<lparr>code = c, json = b\<rparr>"

section \<open>Courier routes\<close>

text \<open>The statements of \<^verbatim>\<open>couriers.js\<close>, with runs of white space written as one blank.\<close>

definition sql_add_courier_order :: string where
  "sql_add_courier_order = ''CALL AddCourierOrder(?, ?, ?, ?, ?)''"

definition sql_update_courier_status :: string where
  "sql_update_courier_status = ''CALL UpdateCourierStatus(?, ?, ?)''"

definition sql_get_courier_status :: string where
  "sql_get_courier_status = ''SELECT GetCourierStatus(?) AS status''"

definition sql_delivery_history :: string where
  "sql_delivery_history =
     ''SELECT history_id, courier_id, old_status, new_status, changed_at, changed_by_admin_email FROM Delivery_History WHERE courier_id = ? ORDER BY changed_at DESC''"

definition sql_courier_audit :: string where
  "sql_courier_audit =
     ''SELECT audit_id, courier_id, action_type, old_status, new_status, changed_at, admin_email FROM Courier_Audit WHERE courier_id = ? ORDER BY changed_at DESC''"

definition sql_courier_by_id :: string where
  "sql_courier_by_id = ''SELECT courier_id, bill_number FROM Couriers WHERE courier_id = ?''"

definition sql_delete_courier :: string where
  "sql_delete_courier = ''DELETE FROM Couriers WHERE courier_id = ?''"

text \<open>\<^verbatim>\<open>router.post('/add')\<close>\<close>

definition create_fields :: "string list" where
  "create_fields =
     [''customer_id'', ''admin_id'', ''bill_number'', ''pickup_address'', ''delivery_address'']"

definition post_add :: "'db pool \<Rightarrow> request \<Rightarrow> 'db conn \<Rightarrow> response \<times> 'db conn" where
  "post_add p req s =
     (let customer_id = js_get (body req) ''customer_id'';
          admin_id = js_get (body req) ''admin_id'';
          bill_number = js_get (body req) ''bill_number'';
          pickup_address = js_get (body req) ''pickup_address'';
          delivery_address = js_get (body req) ''delivery_address''
      in if \<not> truthy customer_id \<or> \<not> truthy admin_id \<or> \<not> truthy bill_number
            \<or> \<not> truthy pickup_address \<or> \<not> truthy delivery_address
         then (reply 400 [(''success'', JBool False),
                          (''message'', JStr ''All fields are required'')], s)
         else
           (case pool_call p sql_add_courier_order
                   [customer_id, admin_id, bill_number, pickup_address, delivery_address] s of
              (Inl err, s') \<Rightarrow>
                (reply 500 [(''success'', JBool False),
                            (''message'', JStr ''Failed to add courier order''),
                            (''error'', JStr err)], s')
            | (Inr result, s') \<Rightarrow>
                (reply 201 [(''success'', JBool True),
                            (''message'', JStr ''Courier order added successfully using stored procedure''),
                            (''data'', (case result of [] \<Rightarrow> JUndefined
                                        | rs # _ \<Rightarrow> JArr (map JObj rs)))], s')))"

text \<open>\<^verbatim>\<open>router.put('/update-status/:id')\<close>\<close>

definition put_update_status :: "'db pool \<Rightarrow> request \<Rightarrow> 'db conn \<Rightarrow> response \<times> 'db conn" where
  "put_update_status p req s =
     (let id = params_id req;
          new_status = js_get (body req) ''new_status'';
          changed_by_admin_email = js_get (body req) ''changed_by_admin_email''
      in if \<not> truthy new_status \<or> \<not> truthy changed_by_admin_email
         then (reply 400 [(''success'', JBool False),
                          (''message'', JStr ''Status and admin email are required'')], s)
         else
           (case pool_call p sql_update_courier_status
                   [JStr id, new_status, changed_by_admin_email] s of
              (Inl err, s') \<Rightarrow>
                (reply 500 [(''success'', JBool False),
                            (''message'', JStr ''Failed to update courier status''),
                            (''error'', JStr err)], s')
            | (Inr result, s') \<Rightarrow>
                (reply 200 [(''success'', JBool True),
                            (''message'', JStr ''Courier status updated successfully using stored procedure (Trigger fired automatically)''),
                            (''courier_id'', JStr id),
                            (''new_status'', new_status)], s')))"

text \<open>\<^verbatim>\<open>router.get('/status/:id')\<close>\<close>

definition get_status :: "'db pool \<Rightarrow> request \<Rightarrow> 'db conn \<Rightarrow> response \<times> 'db conn" where
  "get_status p req s =
     (let id = params_id req
      in case pool_select p sql_get_courier_status [JStr id] s of
           (Inl err, s') \<Rightarrow>
             (reply 500 [(''success'', JBool False),
                         (''message'', JStr ''Failed to get courier status''),
                         (''error'', JStr err)], s')
         | (Inr rows, s') \<Rightarrow>
             (case rows of
                [] \<Rightarrow> (reply 404 [(''success'', JBool False),
                                  (''message'', JStr ''Courier not found'')], s')
              | r # _ \<Rightarrow>
                  if js_get r ''status'' = JNull
                  then (reply 404 [(''success'', JBool False),
                                   (''message'', JStr ''Courier not found'')], s')
                  else (reply 200 [(''success'', JBool True),
                                   (''message'', JStr ''Status retrieved using database function''),
                                   (''courier_id'', JStr id),
                                   (''status'', js_get r ''status'')], s')))"

text \<open>\<^verbatim>\<open>router.get('/:id/logs')\<close>\<close>

definition get_logs :: "'db pool \<Rightarrow> request \<Rightarrow> 'db conn \<Rightarrow> response \<times> 'db conn" where
  "get_logs p req s =
     (let id = params_id req
      in case pool_select p sql_delivery_history [JStr id] s of
           (Inl err, s') \<Rightarrow>
             (reply 500 [(''success'', JBool False),
                         (''message'', JStr ''Failed to fetch logs''),
                         (''error'', JStr err)], s')
         | (Inr deliveryHistory, s') \<Rightarrow>
             (case pool_select p sql_courier_audit [JStr id] s' of
                (Inl err, s'') \<Rightarrow>
                  (reply 500 [(''success'', JBool False),
                              (''message'', JStr ''Failed to fetch logs''),
                              (''error'', JStr err)], s'')
              | (Inr auditLogs, s'') \<Rightarrow>
                  (reply 200 [(''success'', JBool True),
                              (''message'', JStr ''Logs retrieved successfully (Proof of Trigger execution)''),
                              (''courier_id'', JStr id),
                              (''delivery_history'', JArr (map JObj deliveryHistory)),
                              (''audit_logs'', JArr (map JObj auditLogs)),
                              (''trigger_info'', JStr ''These records were automatically created by the after_courier_status_update trigger'')],
                   s'')))"

text \<open>\<^verbatim>\<open>router.delete('/:id')\<close>\<close>

definition delete_courier :: "'db pool \<Rightarrow> request \<Rightarrow> 'db conn \<Rightarrow> response \<times> 'db conn" where
  "delete_courier p req s =
     (let id = params_id req
      in case pool_select p sql_courier_by_id [JStr id] s of
           (Inl err, s') \<Rightarrow>
             (reply 500 [(''success'', JBool False),
                         (''message'', JStr ''Failed to delete courier''),
                         (''error'', JStr err)], s')
         | (Inr courier, s') \<Rightarrow>
             (case courier of
                [] \<Rightarrow> (reply 404 [(''success'', JBool False),
                                  (''message'', JStr ''Courier not found'')], s')
              | c0 # _ \<Rightarrow>
                  (case pool_exec p sql_delete_courier [JStr id] s' of
                     (Inl err, s'') \<Rightarrow>
                       (reply 500 [(''success'', JBool False),
                                   (''message'', JStr ''Failed to delete courier''),
                                   (''error'', JStr err)], s'')
                   | (Inr ok, s'') \<Rightarrow>
                       (reply 200 [(''success'', JBool True),
                                   (''message'', JStr (''Courier #'' @ id @ '' (''
                                        @ to_string (js_get c0 ''bill_number'')
                                        @ '') deleted successfully'')),
                                   (''deleted_courier'', JObj c0)], s''))))"

section \<open>Report routes\<close>

text \<open>
  Each route of \<^verbatim>\<open>reports.js\<close> sends one fixed statement and replies with the rows
  as the database gave them.
\<close>

definition sql_nested :: string where
  "sql_nested =
     ''SELECT user_id, name, email, phone FROM Users WHERE user_id IN ( SELECT customer_id FROM Couriers WHERE status = 'Delivered' ) ORDER BY name''"

definition sql_aggregate :: string where
  "sql_aggregate =
     ''SELECT status, COUNT(*) as count, COUNT(DISTINCT customer_id) as unique_customers, MIN(created_at) as earliest_order, MAX(created_at) as latest_order FROM Couriers GROUP BY status ORDER BY count DESC''"

definition sql_customer_activity :: string where
  "sql_customer_activity =
     ''SELECT u.user_id, u.name AS customer_name, u.email, COUNT(c.courier_id) AS total_orders, GROUP_CONCAT(DISTINCT c.status) AS order_statuses FROM Users u LEFT JOIN Couriers c ON u.user_id = c.customer_id GROUP BY u.user_id, u.name, u.email HAVING total_orders > 0 ORDER BY total_orders DESC''"

text \<open>\<^verbatim>\<open>router.get('/nested')\<close>\<close>

definition get_nested :: "'db pool \<Rightarrow> 'db conn \<Rightarrow> response \<times> 'db conn" where
  "get_nested p s =
     (case pool_select p sql_nested [] s of
        (Inl err, s') \<Rightarrow>
          (reply 500 [(''success'', JBool False),
                      (''message'', JStr ''Failed to execute NESTED query''),
                      (''error'', JStr err)], s')
      | (Inr rows, s') \<Rightarrow>
          (reply 200 [(''success'', JBool True),
                      (''message'', JStr ''NESTED Query executed successfully''),
                      (''query_type'', JStr ''NESTED (Users with Delivered couriers)''),
                      (''description'', JStr ''Finds all customers who have at least one delivered courier''),
                      (''count'', JNum (int (length rows))),
                      (''data'', JArr (map JObj rows))], s'))"

text \<open>\<^verbatim>\<open>router.get('/aggregate')\<close>\<close>

definition get_aggregate :: "'db pool \<Rightarrow> 'db conn \<Rightarrow> response \<times> 'db conn" where
  "get_aggregate p s =
     (case pool_select p sql_aggregate [] s of
        (Inl err, s') \<Rightarrow>
          (reply 500 [(''success'', JBool False),
                      (''message'', JStr ''Failed to execute AGGREGATE query''),
                      (''error'', JStr err)], s')
      | (Inr rows, s') \<Rightarrow>
          (reply 200 [(''success'', JBool True),
                      (''message'', JStr ''AGGREGATE Query executed successfully''),
                      (''query_type'', JStr ''AGGREGATE (GROUP BY status with COUNT)''),
                      (''description'', JStr ''Groups couriers by status and counts orders''),
                      (''count'', JNum (int (length rows))),
                      (''data'', JArr (map JObj rows))], s'))"

text \<open>\<^verbatim>\<open>router.get('/customer-activity')\<close>\<close>

definition get_customer_activity :: "'db pool \<Rightarrow> 'db conn \<Rightarrow> response \<times> 'db conn" where
  "get_customer_activity p s =
     (case pool_select p sql_customer_activity [] s of
        (Inl err, s') \<Rightarrow>
          (reply 500 [(''success'', JBool False), (''error'', JStr err)], s')
      | (Inr rows, s') \<Rightarrow>
          (reply 200 [(''success'', JBool True),
                      (''message'', JStr ''Customer Activity Report''),
                      (''data'', JArr (map JObj rows))], s'))"

section \<open>What the report statements compute\<close>

text \<open>
  The three statements above, read as functions of the tables they name. A table is
  the list of its rows, with the columns the statements of the two modules mention.
  \<^verbatim>\<open>user_id\<close> and \<^verbatim>\<open>courier_id\<close> identify a row and are never \<^verbatim>\<open>NULL\<close>; a
  customer reference, an admin reference and a status may be \<^verbatim>\<open>NULL\<close>
  (\<open>None\<close>). Time stamps are natural numbers. Strings are compared letter by letter:
  a status is stored in one of its enumerated spellings
  (\<^verbatim>\<open>Pending\<close>, \<^verbatim>\<open>In Transit\<close>, \<^verbatim>\<open>Delivered\<close>).
\<close>

record user =
  user_id :: nat
  name :: string
  email :: string
  phone :: string

record courier =
  courier_id :: nat
  customer_id :: "nat option"
  managed_by_admin_id :: "nat option"
  bill_number :: string
  pickup_address :: string
  delivery_address :: string
  status :: "string option"
  created_at :: nat

text \<open>
  A comparison with \<^verbatim>\<open>NULL\<close> is unknown (\<open>None\<close>); \<^verbatim>\<open>WHERE\<close>,
  \<^verbatim>\<open>ON\<close> and \<^verbatim>\<open>HAVING\<close> keep the rows whose condition is true.
\<close>

definition sql_eq :: "'a option \<Rightarrow> 'a option \<Rightarrow> bool option" where
  "sql_eq a b = (case a of None \<Rightarrow> None
                 | Some x \<Rightarrow> (case b of None \<Rightarrow> None | Some y \<Rightarrow> Some (x = y)))"

definition sql_in :: "'a option \<Rightarrow> 'a option list \<Rightarrow> bool option" where
  "sql_in a bs =
     (if bs = [] then Some False
      else case a of
             None \<Rightarrow> None
           | Some x \<Rightarrow> if Some x \<in> set bs then Some True
                       else if None \<in> set bs then None else Some False)"

definition sql_where :: "('r \<Rightarrow> bool option) \<Rightarrow> 'r list \<Rightarrow> 'r list" where
  "sql_where c rs = filter (\<lambda>r. c r = Some True) rs"

text \<open>
  \<^verbatim>\<open>ORDER BY k\<close> and \<^verbatim>\<open>ORDER BY k DESC\<close>. The order among rows of equal key is
  the database's choice; the properties below do not depend on it.
\<close>

definition order_by :: "('r \<Rightarrow> 'k::linorder) \<Rightarrow> 'r list \<Rightarrow> 'r list" where
  "order_by k rs = sort_key k rs"

definition order_by_desc :: "('r \<Rightarrow> 'k::linorder) \<Rightarrow> 'r list \<Rightarrow> 'r list" where
  "order_by_desc k rs = rev (sort_key k rs)"

text \<open>\<^verbatim>\<open>GROUP BY k\<close>: one group for each value of the key, \<^verbatim>\<open>NULL\<close> being one value.\<close>

definition group_by :: "('r \<Rightarrow> 'k) \<Rightarrow> 'r list \<Rightarrow> ('k \<times> 'r list) list" where
  "group_by k rs = map (\<lambda>v. (v, filter (\<lambda>r. k r = v) rs)) (remdups (map k rs))"

text \<open>Aggregates pass over \<^verbatim>\<open>NULL\<close>; \<^verbatim>\<open>COUNT(*)\<close> is the length of the group.\<close>

definition non_null :: "('r \<Rightarrow> 'a option) \<Rightarrow> 'r list \<Rightarrow> 'a list" where
  "non_null col rs = concat (map (\<lambda>r. case col r of None \<Rightarrow> [] | Some v \<Rightarrow> [v]) rs)"

definition count_col :: "('r \<Rightarrow> 'a option) \<Rightarrow> 'r list \<Rightarrow> nat" where
  "count_col col rs = length (non_null col rs)"

definition count_distinct :: "('r \<Rightarrow> 'a option) \<Rightarrow> 'r list \<Rightarrow> nat" where
  "count_distinct col rs = length (remdups (non_null col rs))"

definition sql_min :: "('r \<Rightarrow> nat) \<Rightarrow> 'r list \<Rightarrow> nat option" where
  "sql_min col rs =
     (case rs of [] \<Rightarrow> None | r # rs' \<Rightarrow> Some (fold (\<lambda>x m. min (col x) m) rs' (col r)))"

definition sql_max :: "('r \<Rightarrow> nat) \<Rightarrow> 'r list \<Rightarrow> nat option" where
  "sql_max col rs =
     (case rs of [] \<Rightarrow> None | r # rs' \<Rightarrow> Some (fold (\<lambda>x m. max (col x) m) rs' (col r)))"

definition group_concat_distinct :: "('r \<Rightarrow> string option) \<Rightarrow> 'r list \<Rightarrow> string option" where
  "group_concat_distinct col rs =
     (case remdups (non_null col rs) of [] \<Rightarrow> None | v # vs \<Rightarrow> Some (join_comma (v # vs)))"

text \<open>
  \<^verbatim>\<open>l LEFT JOIN r ON c\<close>: every left row with each right row it matches, or once
  with \<^verbatim>\<open>NULL\<close>s when it matches none.
\<close>

definition left_join ::
  "('a \<Rightarrow> 'b \<Rightarrow> bool option) \<Rightarrow> 'a list \<Rightarrow> 'b list \<Rightarrow> ('a \<times> 'b option) list" where
  "left_join on ls rs =
     concat (map (\<lambda>l. case sql_where (on l) rs of
                         [] \<Rightarrow> [(l, None)]
                       | m # ms \<Rightarrow> map (\<lambda>r. (l, Some r)) (m # ms)) ls)"

text \<open>The statement of \<^verbatim>\<open>/nested\<close>; its four columns are the whole \<open>user\<close> row.\<close>

definition nested_query :: "user list \<Rightarrow> courier list \<Rightarrow> user list" where
  "nested_query Users Couriers =
     order_by name
       (sql_where
          (\<lambda>u. sql_in (Some (user_id u))
                  (map customer_id
                     (sql_where (\<lambda>c. sql_eq (status c) (Some ''Delivered'')) Couriers)))
          Users)"

text \<open>The statement of \<^verbatim>\<open>/aggregate\<close>; \<open>sc_status\<close> and \<open>sc_count\<close> are its
  columns \<^verbatim>\<open>status\<close> and \<^verbatim>\<open>count\<close>.\<close>

record status_count =
  sc_status :: "string option"
  sc_count :: nat
  unique_customers :: nat
  earliest_order :: "nat option"
  latest_order :: "nat option"

definition aggregate_query :: "courier list \<Rightarrow> status_count list" where
  "aggregate_query Couriers =
     order_by_desc sc_count
       (map (\<lambda>(v, g). \<lparr>sc_status = v,
                        sc_count = length g,
                        unique_customers = count_distinct customer_id g,
                        earliest_order = sql_min created_at g,
                        latest_order = sql_max created_at g\<rparr>)
          (group_by status Couriers))"

text \<open>
  The statement of \<^verbatim>\<open>/customer-activity\<close>, first up to its \<^verbatim>\<open>GROUP BY\<close>, then
  with \<^verbatim>\<open>HAVING\<close> and \<^verbatim>\<open>ORDER BY\<close>; \<open>act_user_id\<close> and \<open>act_email\<close> are its
  columns \<^verbatim>\<open>user_id\<close> and \<^verbatim>\<open>email\<close>.
\<close>

record activity =
  act_user_id :: nat
  customer_name :: string
  act_email :: string
  total_orders :: nat
  order_statuses :: "string option"

definition customer_activity_groups :: "user list \<Rightarrow> courier list \<Rightarrow> activity list" where
  "customer_activity_groups Users Couriers =
     map (\<lambda>(k, g). \<lparr>act_user_id = fst k,
                      customer_name = fst (snd k),
                      act_email = snd (snd k),
                      total_orders = count_col (\<lambda>(u, c). map_option courier_id c) g,
                      order_statuses = group_concat_distinct (\<lambda>(u, c). Option.bind c status) g\<rparr>)
       (group_by (\<lambda>(u, c). (user_id u, name u, email u))
          (left_join (\<lambda>u c. sql_eq (Some (user_id u)) (customer_id c)) Users Couriers))"

definition customer_activity_query :: "user list \<Rightarrow> courier list \<Rightarrow> activity list" where
  "customer_activity_query Users Couriers =
     order_by_desc total_orders
       (filter (\<lambda>r. total_orders r > 0) (customer_activity_groups Users Couriers))"

section \<open>Notions used to state the properties\<close>

definition update_fields :: "string list" where
  "update_fields = [''new_status'', ''changed_by_admin_email'']"

text \<open>The two replies the presence checks give.\<close>

definition all_fields_required :: response where
  "all_fields_required =
     reply 400 [(''success'', JBool False), (''message'', JStr ''All fields are required'')]"

definition status_and_email_required :: response where
  "status_and_email_required =
     reply 400 [(''success'', JBool False),
                (''message'', JStr ''Status and admin email are required'')]"

definition courier_not_found :: response where
  "courier_not_found =
     reply 404 [(''success'', JBool False), (''message'', JStr ''Courier not found'')]"

text \<open>A request body with one property taken out.\<close>

definition without :: "string \<Rightarrow> row \<Rightarrow> row" where
  "without k obj = filter (\<lambda>kv. fst kv \<noteq> k) obj"

definition falsy_values :: "jsval list" where
  "falsy_values = [JNum 0, JStr [], JBool False, JNull]"

text \<open>The grouping key of \<^verbatim>\<open>/customer-activity\<close>, and the orders of one customer.\<close>

definition user_key :: "user \<Rightarrow> nat \<times> string \<times> string" where
  "user_key u = (user_id u, name u, email u)"

definition orders_of :: "courier list \<Rightarrow> nat \<Rightarrow> courier list" where
  "orders_of cs x = filter (\<lambda>c. customer_id c = Some x) cs"

definition activity_row :: "user list \<Rightarrow> courier list \<Rightarrow> nat \<times> string \<times> string \<Rightarrow> activity" where
  "activity_row us cs v =
     \<lparr>act_user_id = fst v,
      customer_name = fst (snd v),
      act_email = snd (snd v),
      total_orders = sum_list (map (\<lambda>u. length (orders_of cs (user_id u)))
                        (filter (\<lambda>u. user_key u = v) us)),
      order_statuses = group_concat_distinct (\<lambda>(u, c). Option.bind c status)
         (filter (\<lambda>p. user_key (fst p) = v)
            (left_join (\<lambda>u c. sql_eq (Some (user_id u)) (customer_id c)) us cs))\<rparr>"

section \<open>Stand-in databases for the examples\<close>

text \<open>A database that cannot be reached: every statement throws.\<close>

definition down_pool :: "unit pool" where
  "down_pool =
     \<lparr>query_select = (\<lambda>sql ps d. (Inl ''connect ECONNREFUSED'', d)),
      query_call = (\<lambda>sql ps d. (Inl ''connect ECONNREFUSED'', d)),
      query_exec = (\<lambda>sql ps d. (Inl ''connect ECONNREFUSED'', d))\<rparr>"

text \<open>
  A table of rows keyed by their \<^verbatim>\<open>courier_id\<close>: a \<^verbatim>\<open>SELECT\<close> answers the rows
  whose key, written as a string, is the parameter; a \<^verbatim>\<open>DELETE\<close> removes them; a
  \<^verbatim>\<open>CALL\<close> answers no result set and changes nothing.
\<close>

definition keyed :: "jsval list \<Rightarrow> row \<Rightarrow> bool" where
  "keyed ps r = (ps = [JStr (to_string (js_get r ''courier_id''))])"

definition mem_pool :: "(row list) pool" where
  "mem_pool =
     \<lparr>query_select = (\<lambda>sql ps t. (Inr (filter (keyed ps) t), t)),
      query_call = (\<lambda>sql ps t. (Inr [], t)),
      query_exec = (\<lambda>sql ps t. (Inr (), filter (\<lambda>r. \<not> keyed ps r) t))\<rparr>"

text \<open>
  A connection that is lost after its first statement: the database counts the statements
  it has received, answers the first read with no rows and throws from then on.
\<close>

definition flaky_pool :: "nat pool" where
  "flaky_pool =
     \<lparr>query_select = (\<lambda>sql ps n. (if n = 0 then Inr [] else Inl ''read ECONNRESET'', Suc n)),
      query_call = (\<lambda>sql ps n. (Inl ''read ECONNRESET'', Suc n)),
      query_exec = (\<lambda>sql ps n. (Inl ''read ECONNRESET'', Suc n))\<rparr>"

definition fresh :: "'db \<Rightarrow> 'db conn" where
  "fresh d = \<lparr>db = d, issued = []\<rparr>"

definition order_request :: request where
  "order_request =
     \<lparr>params_id = [],
      body = [(''customer_id'', JNum 3), (''admin_id'', JNum 1), (''bill_number'', JStr ''BN-100''),
              (''pickup_address'', JStr ''12 Mill Lane''), (''delivery_address'', JStr ''4 Dock Road'')]\<rparr>"


definition id7 :: request where
  "id7 = \<lparr>params_id = ''7'', body = []\<rparr>"

definition courier7 :: row where
  "courier7 = [(''courier_id'', JNum 7), (''bill_number'', JStr ''BN-100'')]"

definition status7 :: row where
  "status7 = [(''courier_id'', JNum 7), (''status'', JStr ''Pending'')]"

definition zero_customer :: request where
  "zero_customer =
     \<lparr>params_id = [],
      body = [(''customer_id'', JNum 0), (''admin_id'', JNum 1), (''bill_number'', JStr ''BN-100''),
              (''pickup_address'', JStr ''12 Mill Lane''), (''delivery_address'', JStr ''4 Dock Road'')]\<rparr>"

definition empty_status :: request where
  "empty_status =
     \<lparr>params_id = ''7'',
      body = [(''new_status'', JStr []), (''changed_by_admin_email'', JStr ''admin@example.com'')]\<rparr>"

definition courier8 :: row where
  "courier8 = [(''courier_id'', JNum 8), (''bill_number'', JStr ''BN-101'')]"

definition null_status7 :: row where
  "null_status7 = [(''courier_id'', JNum 7), (''status'', JNull)]"

text \<open>Three users and five orders; the second user has no order, the last order no customer.\<close>

definition asha :: user where
  "asha = \<lparr>user_id = 1, name = ''Asha'', email = ''asha@example.com'', phone = ''111''\<rparr>"

definition bilal :: user where
  "bilal = \<lparr>user_id = 2, name = ''Bilal'', email = ''bilal@example.com'', phone = ''222''\<rparr>"

definition chen :: user where
  "chen = \<lparr>user_id = 3, name = ''Chen'', email = ''chen@example.com'', phone = ''333''\<rparr>"

definition demo_users :: "user list" where
  "demo_users = [chen, bilal, asha]"

definition order_row :: "nat \<Rightarrow> nat option \<Rightarrow> string option \<Rightarrow> nat \<Rightarrow> courier" where
  "order_row i c st t =
     \<lparr>courier_id = i, customer_id = c, managed_by_admin_id = Some 1, bill_number = ''BN'',
      pickup_address = ''12 Mill Lane'', delivery_address = ''4 Dock Road'',
      status = st, created_at = t\<rparr>"

definition demo_couriers :: "courier list" where
  "demo_couriers =
     [order_row 10 (Some 3) (Some ''Delivered'') 5,
      order_row 11 (Some 1) (Some ''Pending'') 6,
      order_row 12 (Some 3) (Some ''Pending'') 7,
      order_row 13 (Some 1) (Some ''Delivered'') 8,
      order_row 14 None (Some ''Delivered'') 9]"

section \<open>Properties of the courier routes\<close>

lemma js_get_absent: "map_of obj k = None \<Longrightarrow> js_get obj k = JUndefined"
  by (simp add: js_get_def)

lemma js_get_present: "map_of obj k = Some v \<Longrightarrow> js_get obj k = v"
  by (simp add: js_get_def)

lemma js_get_without: "js_get (without k obj) k = JUndefined"
proof -
  have "k \<notin> fst ` set (without k obj)"
    by (auto simp: without_def)
  then have "map_of (without k obj) k = None"
    by (simp add: map_of_eq_None_iff)
  then show ?thesis
    by (rule js_get_absent)
qed

lemma post_add_falsy:
  assumes "k \<in> set create_fields" and "\<not> truthy (js_get (body req) k)"
  shows "post_add p req s = (all_fields_required, s)"
  using assms by (auto simp: post_add_def create_fields_def all_fields_required_def Let_def)

lemma put_update_status_falsy:
  assumes "k \<in> set update_fields" and "\<not> truthy (js_get (body req) k)"
  shows "put_update_status p req s = (status_and_email_required, s)"
  using assms
  by (auto simp: put_update_status_def update_fields_def status_and_email_required_def Let_def)

lemma post_add_truthy:
  assumes "list_all (\<lambda>k. truthy (js_get (body req) k)) create_fields"
  shows "post_add p req s =
     (case pool_call p sql_add_courier_order (map (js_get (body req)) create_fields) s of
        (Inl err, s') \<Rightarrow>
          (reply 500 [(''success'', JBool False),
                      (''message'', JStr ''Failed to add courier order''),
                      (''error'', JStr err)], s')
      | (Inr result, s') \<Rightarrow>
          (reply 201 [(''success'', JBool True),
                      (''message'', JStr ''Courier order added successfully using stored procedure''),
                      (''data'', (case result of [] \<Rightarrow> JUndefined
                                  | rs # _ \<Rightarrow> JArr (map JObj rs)))], s'))"
  using assms by (simp add: post_add_def create_fields_def Let_def)

lemma create_fields_of_order_request:
  "map (js_get (body order_request)) create_fields =
     [JNum 3, JNum 1, JStr ''BN-100'', JStr ''12 Mill Lane'', JStr ''4 Dock Road'']"
  by (simp add: order_request_def create_fields_def js_get_def)

lemma show_nat_7: "show_nat 7 = ''7''"
  by code_simp

lemma show_nat_8: "show_nat 8 = ''8''"
  by code_simp

lemma keyed_7 [simp]:
  "keyed [JStr ''7''] courier7" "keyed [JStr ''7''] status7" "keyed [JStr ''7''] null_status7"
  "\<not> keyed [JStr ''7''] courier8"
  by (simp_all add: keyed_def courier7_def status7_def null_status7_def courier8_def js_get_def
      show_int_def show_nat_7 show_nat_8)

subsection \<open>Creating an order\<close>

text \<open>
  With all five fields given and the database unreachable, the route replies 500, not
  201: the reply to a complete request depends on how the call ends. And a body that
  has all five properties, \<^verbatim>\<open>customer_id\<close> being \<^verbatim>\<open>0\<close>, is refused with 400 and no
  statement: a field that is there is not thereby accepted.
\<close>

theorem post_add_database_down:
  "map (js_get (body order_request)) create_fields =
     [JNum 3, JNum 1, JStr ''BN-100'', JStr ''12 Mill Lane'', JStr ''4 Dock Road'']
   \<and> code (fst (post_add down_pool order_request (fresh ()))) = 500
   \<and> js_get (json (fst (post_add down_pool order_request (fresh ())))) ''success'' = JBool False
   \<and> map (map_of (body zero_customer)) create_fields =
       [Some (JNum 0), Some (JNum 1), Some (JStr ''BN-100''), Some (JStr ''12 Mill Lane''),
        Some (JStr ''4 Dock Road'')]
   \<and> post_add mem_pool zero_customer (fresh ([]::row list)) = (all_fields_required, fresh [])"
  by (simp add: post_add_def order_request_def zero_customer_def create_fields_def js_get_def
      Let_def pool_call_def down_pool_def fresh_def reply_def all_fields_required_def)

text \<open>
  Claim C1, amended. When any one of \<^verbatim>\<open>customer_id\<close>, \<^verbatim>\<open>admin_id\<close>,
  \<^verbatim>\<open>bill_number\<close>, \<^verbatim>\<open>pickup_address\<close>, \<^verbatim>\<open>delivery_address\<close> is falsy, that is
  missing from the body or given as \<^verbatim>\<open>null\<close>, \<^verbatim>\<open>0\<close>, the empty string or
  \<^verbatim>\<open>false\<close>, \<^verbatim>\<open>POST /add\<close> replies 400 with \<^verbatim>\<open>success: false\<close> and issues no
  statement (the connection is as it was). When all five are truthy, it issues exactly
  one statement, \<^verbatim>\<open>CALL AddCourierOrder(?, ?, ?, ?, ?)\<close>, with the five values in
  that order; it replies 201 with \<^verbatim>\<open>success: true\<close> if the call returns, and 500
  with \<^verbatim>\<open>success: false\<close> if the call throws. The two cases leave no request out.
\<close>

theorem post_add_presence_then_one_call:
  "((\<exists>k \<in> set create_fields. \<not> truthy (js_get (body req) k)) \<longrightarrow>
      post_add p req s = (all_fields_required, s))
   \<and> ((\<exists>k \<in> set create_fields. map_of (body req) k = None) \<longrightarrow>
      post_add p req s = (all_fields_required, s))
   \<and> ((\<exists>k \<in> set create_fields. \<not> truthy (js_get (body req) k))
        \<or> list_all (\<lambda>k. truthy (js_get (body req) k)) create_fields)
   \<and> (list_all (\<lambda>k. truthy (js_get (body req) k)) create_fields \<longrightarrow>
        issued (snd (post_add p req s)) =
          issued s @ [(sql_add_courier_order, map (js_get (body req)) create_fields)]
        \<and> (\<forall>result d.
              query_call p sql_add_courier_order (map (js_get (body req)) create_fields) (db s)
                = (Inr result, d) \<longrightarrow>
              code (fst (post_add p req s)) = 201
              \<and> js_get (json (fst (post_add p req s))) ''success'' = JBool True
              \<and> db (snd (post_add p req s)) = d)
        \<and> (\<forall>err d.
              query_call p sql_add_courier_order (map (js_get (body req)) create_fields) (db s)
                = (Inl err, d) \<longrightarrow>
              code (fst (post_add p req s)) = 500
              \<and> js_get (json (fst (post_add p req s))) ''success'' = JBool False
              \<and> db (snd (post_add p req s)) = d))"
proof (intro conjI impI)
  assume "\<exists>k \<in> set create_fields. \<not> truthy (js_get (body req) k)"
  then obtain k where "k \<in> set create_fields" and "\<not> truthy (js_get (body req) k)"
    by blast
  then show "post_add p req s = (all_fields_required, s)"
    by (rule post_add_falsy)
next
  assume "\<exists>k \<in> set create_fields. map_of (body req) k = None"
  then obtain k where k: "k \<in> set create_fields" and "map_of (body req) k = None"
    by blast
  then have "\<not> truthy (js_get (body req) k)"
    by (simp add: js_get_absent)
  with k show "post_add p req s = (all_fields_required, s)"
    by (rule post_add_falsy)
next
  show "(\<exists>k \<in> set create_fields. \<not> truthy (js_get (body req) k))
        \<or> list_all (\<lambda>k. truthy (js_get (body req) k)) create_fields"
    by (auto simp: list_all_iff)
next
  assume t: "list_all (\<lambda>k. truthy (js_get (body req) k)) create_fields"
  show "issued (snd (post_add p req s)) =
          issued s @ [(sql_add_courier_order, map (js_get (body req)) create_fields)]"
    by (simp add: post_add_truthy [OF t] pool_call_def split: prod.splits sum.splits)
  show "\<forall>result d.
              query_call p sql_add_courier_order (map (js_get (body req)) create_fields) (db s)
                = (Inr result, d) \<longrightarrow>
              code (fst (post_add p req s)) = 201
              \<and> js_get (json (fst (post_add p req s))) ''success'' = JBool True
              \<and> db (snd (post_add p req s)) = d"
    by (simp add: post_add_truthy [OF t] pool_call_def reply_def js_get_def)
  show "\<forall>err d.
              query_call p sql_add_courier_order (map (js_get (body req)) create_fields) (db s)
                = (Inl err, d) \<longrightarrow>
              code (fst (post_add p req s)) = 500
              \<and> js_get (json (fst (post_add p req s))) ''success'' = JBool False
              \<and> db (snd (post_add p req s)) = d"
    by (simp add: post_add_truthy [OF t] pool_call_def reply_def js_get_def)
qed

text \<open>
  An order without its bill number, and one whose customer id is 0, are refused before
  the database is touched; the whole order reaches the database once, and is answered
  201 or 500 as the call ends.
\<close>

theorem post_add_presence_then_one_call_witness:
  "post_add mem_pool (order_request\<lparr>body := without ''bill_number'' (body order_request)\<rparr>)
       (fresh ([]::row list))
     = (all_fields_required, fresh [])
   \<and> post_add mem_pool zero_customer (fresh ([]::row list)) = (all_fields_required, fresh [])
   \<and> issued (snd (post_add mem_pool order_request (fresh ([]::row list)))) =
       [(sql_add_courier_order,
         [JNum 3, JNum 1, JStr ''BN-100'', JStr ''12 Mill Lane'', JStr ''4 Dock Road''])]
   \<and> code (fst (post_add mem_pool order_request (fresh ([]::row list)))) = 201
   \<and> code (fst (post_add down_pool order_request (fresh ()))) = 500"
proof -
  let ?short = "order_request\<lparr>body := without ''bill_number'' (body order_request)\<rparr>"
  have absent: "\<exists>k \<in> set create_fields. map_of (body ?short) k = None"
    by (simp add: create_fields_def order_request_def without_def)
  have zero: "\<exists>k \<in> set create_fields. \<not> truthy (js_get (body zero_customer) k)"
    by (simp add: create_fields_def zero_customer_def js_get_def)
  have full: "list_all (\<lambda>k. truthy (js_get (body order_request) k)) create_fields"
    by (simp add: create_fields_def order_request_def js_get_def)
  have ok: "query_call mem_pool sql_add_courier_order
              (map (js_get (body order_request)) create_fields) (db (fresh ([]::row list)))
            = (Inr [], [])"
    by (simp add: mem_pool_def fresh_def)
  have ko: "query_call down_pool sql_add_courier_order
              (map (js_get (body order_request)) create_fields) (db (fresh ()))
            = (Inl ''connect ECONNREFUSED'', ())"
    by (simp add: down_pool_def fresh_def)
  from post_add_presence_then_one_call [of ?short mem_pool "fresh ([]::row list)"] absent
  have 1: "post_add mem_pool ?short (fresh ([]::row list)) = (all_fields_required, fresh [])"
    by blast
  from post_add_presence_then_one_call [of zero_customer mem_pool "fresh ([]::row list)"] zero
  have 0: "post_add mem_pool zero_customer (fresh ([]::row list)) = (all_fields_required, fresh [])"
    by blast
  from post_add_presence_then_one_call [of order_request mem_pool "fresh ([]::row list)"] full
  have 2: "issued (snd (post_add mem_pool order_request (fresh ([]::row list)))) =
       issued (fresh ([]::row list))
         @ [(sql_add_courier_order, map (js_get (body order_request)) create_fields)]"
    by simp
  from post_add_presence_then_one_call [of order_request mem_pool "fresh ([]::row list)"] full ok
  have 3: "code (fst (post_add mem_pool order_request (fresh ([]::row list)))) = 201"
    by simp
  from post_add_presence_then_one_call [of order_request down_pool "fresh ()"] full ko
  have 4: "code (fst (post_add down_pool order_request (fresh ()))) = 500"
    by simp
  from 0 1 2 3 4 show ?thesis
    by (simp add: create_fields_of_order_request fresh_def)
qed

subsection \<open>Falsy fields\<close>

text \<open>
  Claim C9. The presence checks of \<^verbatim>\<open>POST /add\<close> and
  \<^verbatim>\<open>PUT /update-status/:id\<close> take a falsy value for a missing one: a required field
  that is there but is \<^verbatim>\<open>0\<close>, the empty string, \<^verbatim>\<open>false\<close> or \<^verbatim>\<open>null\<close> gets the
  400 reply, the same reply as the request without that field, and no statement is
  issued.
\<close>

theorem falsy_field_is_missing:
  "v \<in> set falsy_values \<and> map_of (body req) k = Some v \<longrightarrow>
     (k \<in> set create_fields \<longrightarrow>
        post_add p req s = (all_fields_required, s)
        \<and> post_add p req s = post_add p (req\<lparr>body := without k (body req)\<rparr>) s)
     \<and> (k \<in> set update_fields \<longrightarrow>
        put_update_status p req s = (status_and_email_required, s)
        \<and> put_update_status p req s
            = put_update_status p (req\<lparr>body := without k (body req)\<rparr>) s)"
proof (intro impI conjI)
  assume a: "v \<in> set falsy_values \<and> map_of (body req) k = Some v"
  then have "js_get (body req) k = v"
    by (simp add: js_get_present)
  moreover from a have "\<not> truthy v"
    by (auto simp: falsy_values_def)
  ultimately have f: "\<not> truthy (js_get (body req) k)"
    by simp
  have g: "\<not> truthy (js_get (body (req\<lparr>body := without k (body req)\<rparr>)) k)"
    by (simp add: js_get_without)
  {
    assume k: "k \<in> set create_fields"
    from k f show "post_add p req s = (all_fields_required, s)"
      by (rule post_add_falsy)
    with post_add_falsy [OF k g, of p s]
    show "post_add p req s = post_add p (req\<lparr>body := without k (body req)\<rparr>) s"
      by simp
  }
  {
    assume k: "k \<in> set update_fields"
    from k f show "put_update_status p req s = (status_and_email_required, s)"
      by (rule put_update_status_falsy)
    with put_update_status_falsy [OF k g, of p s]
    show "put_update_status p req s
            = put_update_status p (req\<lparr>body := without k (body req)\<rparr>) s"
      by simp
  }
qed

text \<open>A customer id of 0 and an empty new status are both refused, with nothing issued.\<close>

theorem falsy_field_is_missing_witness:
  "post_add mem_pool zero_customer (fresh ([]::row list)) = (all_fields_required, fresh [])
   \<and> issued (snd (post_add mem_pool zero_customer (fresh ([]::row list)))) = []
   \<and> put_update_status mem_pool empty_status (fresh ([]::row list))
       = (status_and_email_required, fresh [])
   \<and> issued (snd (put_update_status mem_pool empty_status (fresh ([]::row list)))) = []"
proof -
  have c: "JNum 0 \<in> set falsy_values
           \<and> map_of (body zero_customer) ''customer_id'' = Some (JNum 0)"
    by (simp add: falsy_values_def zero_customer_def)
  have u: "JStr [] \<in> set falsy_values
           \<and> map_of (body empty_status) ''new_status'' = Some (JStr [])"
    by (simp add: falsy_values_def empty_status_def)
  have kc: "''customer_id'' \<in> set create_fields"
    by (simp add: create_fields_def)
  have ku: "''new_status'' \<in> set update_fields"
    by (simp add: update_fields_def)
  from falsy_field_is_missing
         [of "JNum 0" zero_customer "''customer_id''" mem_pool "fresh ([]::row list)"] c kc
  have 1: "post_add mem_pool zero_customer (fresh ([]::row list)) = (all_fields_required, fresh [])"
    by simp
  from falsy_field_is_missing
         [of "JStr []" empty_status "''new_status''" mem_pool "fresh ([]::row list)"] u ku
  have 2: "put_update_status mem_pool empty_status (fresh ([]::row list))
       = (status_and_email_required, fresh [])"
    by simp
  from 1 2 show ?thesis
    by (simp add: fresh_def)
qed

subsection \<open>Updating a status\<close>



subsection \<open>Reading a status\<close>

text \<open>
  Claim C4. \<^verbatim>\<open>GET /status/:id\<close> replies 404 exactly when the call of
  \<^verbatim>\<open>GetCourierStatus\<close> returns no row, or a first row whose \<^verbatim>\<open>status\<close> is
  \<^verbatim>\<open>null\<close>. When it returns a row with another status, the reply is 200 with that
  status and the id of the request; when it throws, the reply is 500.
\<close>

theorem get_status_not_found_iff:
  "(code (fst (get_status p req s)) = 404 \<longleftrightarrow>
      (\<exists>rows d. query_select p sql_get_courier_status [JStr (params_id req)] (db s) = (Inr rows, d)
         \<and> (rows = [] \<or> js_get (hd rows) ''status'' = JNull)))
   \<and> (\<forall>r rows d.
        query_select p sql_get_courier_status [JStr (params_id req)] (db s) = (Inr (r # rows), d)
        \<and> js_get r ''status'' \<noteq> JNull \<longrightarrow>
          fst (get_status p req s) =
            reply 200 [(''success'', JBool True),
                       (''message'', JStr ''Status retrieved using database function''),
                       (''courier_id'', JStr (params_id req)),
                       (''status'', js_get r ''status'')])
   \<and> (\<forall>err d.
        query_select p sql_get_courier_status [JStr (params_id req)] (db s) = (Inl err, d) \<longrightarrow>
          code (fst (get_status p req s)) = 500)"
  by (auto simp: get_status_def Let_def pool_select_def reply_def
      split: prod.splits sum.splits list.splits)

text \<open>No row, a null status, a status of \<^verbatim>\<open>Pending\<close>, and a database that is down.\<close>

theorem get_status_not_found_iff_witness:
  "code (fst (get_status mem_pool id7 (fresh []))) = 404
   \<and> code (fst (get_status mem_pool id7 (fresh [null_status7]))) = 404
   \<and> fst (get_status mem_pool id7 (fresh [status7])) =
       reply 200 [(''success'', JBool True),
                  (''message'', JStr ''Status retrieved using database function''),
                  (''courier_id'', JStr ''7''),
                  (''status'', JStr ''Pending'')]
   \<and> code (fst (get_status down_pool id7 (fresh ()))) = 500"
proof -
  have q0: "query_select mem_pool sql_get_courier_status [JStr (params_id id7)] (db (fresh []))
              = (Inr [], [])"
    by (simp add: mem_pool_def fresh_def)
  have q1: "query_select mem_pool sql_get_courier_status [JStr (params_id id7)]
              (db (fresh [null_status7])) = (Inr [null_status7], [null_status7])"
    by (simp add: mem_pool_def fresh_def id7_def)
  have q2: "query_select mem_pool sql_get_courier_status [JStr (params_id id7)]
              (db (fresh [status7])) = (Inr (status7 # []), [status7])"
    by (simp add: mem_pool_def fresh_def id7_def)
  have q3: "query_select down_pool sql_get_courier_status [JStr (params_id id7)] (db (fresh ()))
              = (Inl ''connect ECONNREFUSED'', ())"
    by (simp add: down_pool_def)
  have n: "js_get (hd [null_status7]) ''status'' = JNull"
    and v: "js_get status7 ''status'' = JStr ''Pending''"
    by (simp_all add: js_get_def status7_def null_status7_def)
  from get_status_not_found_iff [of mem_pool id7 "fresh []"] q0
  have 1: "code (fst (get_status mem_pool id7 (fresh []))) = 404"
    by simp
  from get_status_not_found_iff [of mem_pool id7 "fresh [null_status7]"] q1 n
  have 2: "code (fst (get_status mem_pool id7 (fresh [null_status7]))) = 404"
    by simp
  from get_status_not_found_iff [of mem_pool id7 "fresh [status7]"] q2 v
  have 3: "fst (get_status mem_pool id7 (fresh [status7])) =
            reply 200 [(''success'', JBool True),
                       (''message'', JStr ''Status retrieved using database function''),
                       (''courier_id'', JStr (params_id id7)),
                       (''status'', js_get status7 ''status'')]"
    by simp
  from get_status_not_found_iff [of down_pool id7 "fresh ()"] q3
  have 4: "code (fst (get_status down_pool id7 (fresh ()))) = 500"
    by simp
  from 1 2 3 4 show ?thesis
    by (simp add: v id7_def)
qed

subsection \<open>Reading the logs\<close>

text \<open>
  With the database unreachable, \<^verbatim>\<open>GET /7/logs\<close> issues the first of its two
  statements only, and replies 500.
\<close>

theorem get_logs_database_down:
  "code (fst (get_logs down_pool id7 (fresh ()))) = 500
   \<and> issued (snd (get_logs down_pool id7 (fresh ()))) = [(sql_delivery_history, [JStr ''7''])]"
  by (simp add: get_logs_def Let_def pool_select_def down_pool_def fresh_def id7_def reply_def)

text \<open>
  Claim C5, amended. \<^verbatim>\<open>GET /:id/logs\<close> never replies 404: its status code is 200 or
  500. For every id it reads \<^verbatim>\<open>Delivery_History\<close> and, if that read returns,
  \<^verbatim>\<open>Courier_Audit\<close>, each with \<^verbatim>\<open>WHERE courier_id = ?\<close> bound to the id and
  \<^verbatim>\<open>ORDER BY changed_at DESC\<close>. When both reads return, the reply is 200 with the
  two sequences as they came, empty or not, and these two statements are all it issued;
  when a read throws, the reply is 500.
\<close>

theorem get_logs_never_not_found:
  "code (fst (get_logs p req s)) \<in> {200, 500}
   \<and> code (fst (get_logs p req s)) \<noteq> 404
   \<and> (\<forall>h d1 a d2.
        query_select p sql_delivery_history [JStr (params_id req)] (db s) = (Inr h, d1)
        \<and> query_select p sql_courier_audit [JStr (params_id req)] d1 = (Inr a, d2) \<longrightarrow>
          get_logs p req s =
            (reply 200 [(''success'', JBool True),
                        (''message'', JStr ''Logs retrieved successfully (Proof of Trigger execution)''),
                        (''courier_id'', JStr (params_id req)),
                        (''delivery_history'', JArr (map JObj h)),
                        (''audit_logs'', JArr (map JObj a)),
                        (''trigger_info'', JStr ''These records were automatically created by the after_courier_status_update trigger'')],
             \<lparr>db = d2, issued = issued s @ [(sql_delivery_history, [JStr (params_id req)]),
                                            (sql_courier_audit, [JStr (params_id req)])]\<rparr>))
   \<and> (\<forall>err d1.
        query_select p sql_delivery_history [JStr (params_id req)] (db s) = (Inl err, d1) \<longrightarrow>
          code (fst (get_logs p req s)) = 500
          \<and> issued (snd (get_logs p req s))
              = issued s @ [(sql_delivery_history, [JStr (params_id req)])])
   \<and> (\<forall>h d1 err d2.
        query_select p sql_delivery_history [JStr (params_id req)] (db s) = (Inr h, d1)
        \<and> query_select p sql_courier_audit [JStr (params_id req)] d1 = (Inl err, d2) \<longrightarrow>
          code (fst (get_logs p req s)) = 500
          \<and> issued (snd (get_logs p req s))
              = issued s @ [(sql_delivery_history, [JStr (params_id req)]),
                            (sql_courier_audit, [JStr (params_id req)])])"
  by (auto simp: get_logs_def Let_def pool_select_def reply_def split: prod.splits sum.splits)

text \<open>
  A courier without history or audit rows: two empty sequences, and 200. A read that
  throws, the first or the second, is answered 500.
\<close>

theorem get_logs_never_not_found_witness:
  "get_logs mem_pool id7 (fresh ([]::row list)) =
     (reply 200 [(''success'', JBool True),
                 (''message'', JStr ''Logs retrieved successfully (Proof of Trigger execution)''),
                 (''courier_id'', JStr ''7''),
                 (''delivery_history'', JArr []),
                 (''audit_logs'', JArr []),
                 (''trigger_info'', JStr ''These records were automatically created by the after_courier_status_update trigger'')],
      \<lparr>db = [], issued = [(sql_delivery_history, [JStr ''7'']), (sql_courier_audit, [JStr ''7''])]\<rparr>)
   \<and> code (fst (get_logs down_pool id7 (fresh ()))) = 500
   \<and> code (fst (get_logs flaky_pool id7 (fresh 0))) = 500"
proof -
  have q: "query_select mem_pool sql_delivery_history [JStr (params_id id7)]
             (db (fresh ([]::row list))) = (Inr [], [])
         \<and> query_select mem_pool sql_courier_audit [JStr (params_id id7)] [] = (Inr [], [])"
    by (simp add: mem_pool_def fresh_def)
  have q1: "query_select down_pool sql_delivery_history [JStr (params_id id7)] (db (fresh ()))
              = (Inl ''connect ECONNREFUSED'', ())"
    by (simp add: down_pool_def)
  have q2: "query_select flaky_pool sql_delivery_history [JStr (params_id id7)] (db (fresh 0))
              = (Inr [], Suc 0)
          \<and> query_select flaky_pool sql_courier_audit [JStr (params_id id7)] (Suc 0)
              = (Inl ''read ECONNRESET'', Suc (Suc 0))"
    by (simp add: flaky_pool_def fresh_def)
  from get_logs_never_not_found [of mem_pool id7 "fresh ([]::row list)"] q
  have 1: "get_logs mem_pool id7 (fresh ([]::row list)) =
            (reply 200 [(''success'', JBool True),
                        (''message'', JStr ''Logs retrieved successfully (Proof of Trigger execution)''),
                        (''courier_id'', JStr (params_id id7)),
                        (''delivery_history'', JArr (map JObj [])),
                        (''audit_logs'', JArr (map JObj [])),
                        (''trigger_info'', JStr ''These records were automatically created by the after_courier_status_update trigger'')],
             \<lparr>db = [], issued = issued (fresh ([]::row list))
                          @ [(sql_delivery_history, [JStr (params_id id7)]),
                             (sql_courier_audit, [JStr (params_id id7)])]\<rparr>)"
    by blast
  from get_logs_never_not_found [of down_pool id7 "fresh ()"] q1
  have 2: "code (fst (get_logs down_pool id7 (fresh ()))) = 500"
    by blast
  from get_logs_never_not_found [of flaky_pool id7 "fresh 0"] q2
  have 3: "code (fst (get_logs flaky_pool id7 (fresh 0))) = 500"
    by blast
  from 1 2 3 show ?thesis
    by (simp add: id7_def fresh_def)
qed

subsection \<open>Deleting a courier\<close>

text \<open>
  Claim C2. When the existence check of \<^verbatim>\<open>DELETE /:id\<close> finds no row for the id,
  the reply is 404 and that check is the only statement issued: no
  \<^verbatim>\<open>DELETE FROM Couriers\<close> follows, and the database is the one the check left.
\<close>

theorem delete_courier_absent:
  "query_select p sql_courier_by_id [JStr (params_id req)] (db s) = (Inr [], d) \<longrightarrow>
     delete_courier p req s =
       (courier_not_found,
        \<lparr>db = d, issued = issued s @ [(sql_courier_by_id, [JStr (params_id req)])]\<rparr>)
     \<and> filter (\<lambda>q. fst q = sql_delete_courier)
          (drop (length (issued s)) (issued (snd (delete_courier p req s)))) = []"
  by (auto simp: delete_courier_def Let_def pool_select_def courier_not_found_def
      sql_courier_by_id_def sql_delete_courier_def)

text \<open>Deleting courier 7 from a table that holds courier 8 only leaves the table as it is.\<close>

theorem delete_courier_absent_witness:
  "delete_courier mem_pool id7 (fresh [courier8]) =
     (courier_not_found, \<lparr>db = [courier8], issued = [(sql_courier_by_id, [JStr ''7''])]\<rparr>)"
proof -
  have q: "query_select mem_pool sql_courier_by_id [JStr (params_id id7)] (db (fresh [courier8]))
             = (Inr [], [courier8])"
    by (simp add: mem_pool_def fresh_def id7_def)
  from delete_courier_absent [of mem_pool id7 "fresh [courier8]" "[courier8]"] q
  show ?thesis
    by (simp add: fresh_def id7_def)
qed

text \<open>
  Deleting courier 7 with bill number \<^verbatim>\<open>BN-100\<close>: the reply has the three
  properties \<^verbatim>\<open>success\<close>, \<^verbatim>\<open>message\<close> and \<^verbatim>\<open>deleted_courier\<close>, the last holding
  \<^verbatim>\<open>courier_id\<close> and \<^verbatim>\<open>bill_number\<close>; it has no property \<^verbatim>\<open>deleted\<close> and no
  \<^verbatim>\<open>data\<close>, and the record has no \<^verbatim>\<open>id\<close>.
\<close>

theorem delete_courier_reply_has_no_deleted_key:
  "json (fst (delete_courier mem_pool id7 (fresh [courier7]))) =
     [(''success'', JBool True),
      (''message'', JStr ''Courier #7 (BN-100) deleted successfully''),
      (''deleted_courier'', JObj [(''courier_id'', JNum 7), (''bill_number'', JStr ''BN-100'')])]
   \<and> map_of (json (fst (delete_courier mem_pool id7 (fresh [courier7])))) ''deleted'' = None
   \<and> map_of (json (fst (delete_courier mem_pool id7 (fresh [courier7])))) ''data'' = None"
proof -
  have "fst (delete_courier mem_pool id7 (fresh [courier7])) =
     reply 200 [(''success'', JBool True),
      (''message'', JStr ''Courier #7 (BN-100) deleted successfully''),
      (''deleted_courier'', JObj [(''courier_id'', JNum 7), (''bill_number'', JStr ''BN-100'')])]"
    by (simp add: delete_courier_def Let_def pool_select_def pool_exec_def mem_pool_def
        fresh_def id7_def)
       (simp add: courier7_def js_get_def)
  then show ?thesis
    by (simp add: reply_def)
qed

text \<open>
  Claim C3, amended. When \<^verbatim>\<open>DELETE /:id\<close> finds the courier and the delete
  returns, the reply is 200 and consists of \<^verbatim>\<open>success: true\<close>, a message naming the
  id and the bill number, and \<^verbatim>\<open>deleted_courier\<close>: the row the existence check
  selected, that is its \<^verbatim>\<open>courier_id\<close> and \<^verbatim>\<open>bill_number\<close>. For id 7 with bill number
  \<^verbatim>\<open>BN-100\<close> this is
  \<^verbatim>\<open>{deleted_courier: {courier_id: 7, bill_number: "BN-100"}}\<close> next to
  \<^verbatim>\<open>success\<close> and \<^verbatim>\<open>message\<close>.
\<close>

theorem delete_courier_present:
  "query_select p sql_courier_by_id [JStr (params_id req)] (db s) = (Inr (c0 # cs), d)
   \<and> query_exec p sql_delete_courier [JStr (params_id req)] d = (Inr (), d') \<longrightarrow>
     delete_courier p req s =
       (reply 200 [(''success'', JBool True),
                   (''message'', JStr (''Courier #'' @ params_id req @ '' (''
                        @ to_string (js_get c0 ''bill_number'') @ '') deleted successfully'')),
                   (''deleted_courier'', JObj c0)],
        \<lparr>db = d', issued = issued s @ [(sql_courier_by_id, [JStr (params_id req)]),
                                        (sql_delete_courier, [JStr (params_id req)])]\<rparr>)"
  by (simp add: delete_courier_def Let_def pool_select_def pool_exec_def)

text \<open>Courier 7 is deleted from the table that holds it.\<close>

theorem delete_courier_present_witness:
  "delete_courier mem_pool id7 (fresh [courier7]) =
     (reply 200 [(''success'', JBool True),
                 (''message'', JStr ''Courier #7 (BN-100) deleted successfully''),
                 (''deleted_courier'',
                  JObj [(''courier_id'', JNum 7), (''bill_number'', JStr ''BN-100'')])],
      \<lparr>db = [], issued = [(sql_courier_by_id, [JStr ''7'']), (sql_delete_courier, [JStr ''7''])]\<rparr>)"
proof -
  have q: "query_select mem_pool sql_courier_by_id [JStr (params_id id7)] (db (fresh [courier7]))
             = (Inr (courier7 # []), [courier7])
           \<and> query_exec mem_pool sql_delete_courier [JStr (params_id id7)] [courier7] = (Inr (), [])"
    by (simp add: mem_pool_def fresh_def id7_def)
  have m: "to_string (js_get courier7 ''bill_number'') = ''BN-100''"
    by (simp add: courier7_def js_get_def)
  from delete_courier_present [of mem_pool id7 "fresh [courier7]" courier7 "[]" "[courier7]" "[]"] q
  show ?thesis
    by (simp add: m) (simp add: id7_def fresh_def courier7_def)
qed

section \<open>Properties of the report routes\<close>

text \<open>A report route replies with the rows, and in the order, the database gave.\<close>

lemma get_nested_rows:
  "query_select p sql_nested [] (db s) = (Inr rows, d) \<Longrightarrow>
     js_get (json (fst (get_nested p s))) ''data'' = JArr (map JObj rows)
     \<and> code (fst (get_nested p s)) = 200"
  by (simp add: get_nested_def pool_select_def reply_def js_get_def)

lemma get_aggregate_rows:
  "query_select p sql_aggregate [] (db s) = (Inr rows, d) \<Longrightarrow>
     js_get (json (fst (get_aggregate p s))) ''data'' = JArr (map JObj rows)
     \<and> code (fst (get_aggregate p s)) = 200"
  by (simp add: get_aggregate_def pool_select_def reply_def js_get_def)

lemma get_customer_activity_rows:
  "query_select p sql_customer_activity [] (db s) = (Inr rows, d) \<Longrightarrow>
     js_get (json (fst (get_customer_activity p s))) ''data'' = JArr (map JObj rows)
     \<and> code (fst (get_customer_activity p s)) = 200"
  by (simp add: get_customer_activity_def pool_select_def reply_def js_get_def)

subsection \<open>Ordering and grouping\<close>

lemma sorted_order_by: "sorted (map k (order_by k rs))"
  by (simp add: order_by_def)

lemma mset_order_by: "mset (order_by k rs) = mset rs"
  by (simp add: order_by_def)

lemma sorted_order_by_desc: "sorted (rev (map k (order_by_desc k rs)))"
  by (simp add: order_by_desc_def rev_map)

lemma set_order_by_desc: "set (order_by_desc k rs) = set rs"
  by (simp add: order_by_desc_def)

lemma mset_map_order_by_desc: "mset (map f (order_by_desc k rs)) = mset (map f rs)"
  by (simp add: order_by_desc_def)

lemma distinct_map_order_by_desc:
  "distinct (map f (order_by_desc k rs)) = distinct (map f rs)"
  using mset_map_order_by_desc [of f k rs] by (rule mset_eq_imp_distinct_iff)

lemma sum_list_indicator:
  "distinct vs \<Longrightarrow> x \<in> set vs \<Longrightarrow>
     sum_list (map (\<lambda>v. if v = x then f v else 0) vs) = (f x :: nat)"
  by (induction vs) auto

text \<open>The groups of a \<^verbatim>\<open>GROUP BY\<close> share out the rows: their sizes add up to the table's.\<close>

lemma sum_group_sizes_gen:
  "distinct vs \<Longrightarrow> k ` set rs \<subseteq> set vs \<Longrightarrow>
     sum_list (map (\<lambda>v. length (filter (\<lambda>r. k r = v) rs)) vs) = length rs"
proof (induction rs)
  case Nil
  then show ?case by simp
next
  case (Cons r rs)
  have "sum_list (map (\<lambda>v. length (filter (\<lambda>r. k r = v) (r # rs))) vs)
      = sum_list (map (\<lambda>v. (if v = k r then 1 else 0) + length (filter (\<lambda>r. k r = v) rs)) vs)"
    by (rule arg_cong [where f = sum_list], rule map_cong) auto
  also have "\<dots> = sum_list (map (\<lambda>v. if v = k r then 1 else 0) vs)
                 + sum_list (map (\<lambda>v. length (filter (\<lambda>r. k r = v) rs)) vs)"
    by (simp add: sum_list_addf)
  also have "\<dots> = 1 + length rs"
    using Cons by (simp add: sum_list_indicator [where f = "\<lambda>_. 1"])
  finally show ?case by simp
qed

lemma sum_group_sizes:
  "sum_list (map (\<lambda>v. length (filter (\<lambda>r. k r = v) rs)) (remdups (map k rs))) = length rs"
  by (rule sum_group_sizes_gen) auto

subsection \<open>The membership report\<close>

lemma delivered_customer_iff:
  "sql_in (Some x)
      (map customer_id (sql_where (\<lambda>c. sql_eq (status c) (Some ''Delivered'')) cs)) = Some True
   \<longleftrightarrow> (\<exists>c \<in> set cs. customer_id c = Some x \<and> status c = Some ''Delivered'')"
  by (auto simp: sql_in_def sql_where_def sql_eq_def image_iff filter_empty_conv
      split: option.splits if_splits)

text \<open>
  Claim C6. The statement of \<^verbatim>\<open>GET /nested\<close> returns exactly the users whose
  \<^verbatim>\<open>user_id\<close> is the \<^verbatim>\<open>customer_id\<close> of at least one courier whose status is
  \<^verbatim>\<open>Delivered\<close>, each as often as the table holds it, and the rows are in ascending
  order of \<^verbatim>\<open>name\<close>.
\<close>

theorem nested_query_members:
  "mset (nested_query Users Couriers) =
     mset (filter (\<lambda>u. \<exists>c \<in> set Couriers. customer_id c = Some (user_id u)
                          \<and> status c = Some ''Delivered'') Users)
   \<and> sorted (map name (nested_query Users Couriers))"
  by (simp add: nested_query_def sorted_order_by mset_order_by delivered_customer_iff
      sql_where_def [where c = "\<lambda>u. sql_in (Some (user_id u)) (map customer_id (sql_where (\<lambda>c. sql_eq (status c) (Some ''Delivered'')) Couriers))"])

lemma demo_delivered:
  "filter (\<lambda>u. \<exists>c \<in> set demo_couriers. customer_id c = Some (user_id u)
                  \<and> status c = Some ''Delivered'') demo_users = [chen, asha]"
  by (simp add: demo_users_def demo_couriers_def order_row_def chen_def bilal_def asha_def)

text \<open>Asha and Chen have a delivered order, Bilal has none: the report lists Asha, then Chen.\<close>

theorem nested_query_members_witness:
  "mset (nested_query demo_users demo_couriers) = {#chen, asha#}
   \<and> sorted (map name (nested_query demo_users demo_couriers))"
  using nested_query_members [of demo_users demo_couriers]
  by (simp add: demo_delivered)

subsection \<open>The aggregate report\<close>

lemma aggregate_statuses:
  "mset (map sc_status (aggregate_query cs)) = mset (remdups (map status cs))"
  unfolding aggregate_query_def mset_map_order_by_desc
  by (simp add: group_by_def comp_def)

lemma aggregate_counts:
  "mset (map sc_count (aggregate_query cs)) =
     mset (map (\<lambda>v. length (filter (\<lambda>c. status c = v) cs)) (remdups (map status cs)))"
  unfolding aggregate_query_def mset_map_order_by_desc
  by (simp add: group_by_def comp_def)

text \<open>
  Claim C7. The statement of \<^verbatim>\<open>GET /aggregate\<close> returns exactly one row for each
  status that occurs in \<^verbatim>\<open>Couriers\<close>, the row's \<^verbatim>\<open>count\<close> being the number of
  couriers of that status; the rows are in descending order of \<^verbatim>\<open>count\<close>; and the
  counts of all rows add up to the number of rows of \<^verbatim>\<open>Couriers\<close>.
\<close>

theorem aggregate_query_counts:
  "distinct (map sc_status (aggregate_query Couriers))
   \<and> set (map sc_status (aggregate_query Couriers)) = status ` set Couriers
   \<and> (\<forall>r \<in> set (aggregate_query Couriers).
         sc_count r = length (filter (\<lambda>c. status c = sc_status r) Couriers))
   \<and> sorted (rev (map sc_count (aggregate_query Couriers)))
   \<and> sum_list (map sc_count (aggregate_query Couriers)) = length Couriers"
proof (intro conjI)
  have "distinct (remdups (map status Couriers))"
    by simp
  then show "distinct (map sc_status (aggregate_query Couriers))"
    using aggregate_statuses [of Couriers] mset_eq_imp_distinct_iff by blast
  have "set_mset (mset (map sc_status (aggregate_query Couriers)))
          = set_mset (mset (remdups (map status Couriers)))"
    by (simp only: aggregate_statuses)
  then show "set (map sc_status (aggregate_query Couriers)) = status ` set Couriers"
    by simp
  show "\<forall>r \<in> set (aggregate_query Couriers).
         sc_count r = length (filter (\<lambda>c. status c = sc_status r) Couriers)"
    by (auto simp: aggregate_query_def set_order_by_desc group_by_def)
  show "sorted (rev (map sc_count (aggregate_query Couriers)))"
    by (simp add: aggregate_query_def sorted_order_by_desc)
  have "sum_list (map sc_count (aggregate_query Couriers))
          = sum_mset (mset (map sc_count (aggregate_query Couriers)))"
    by (simp only: sum_mset_sum_list)
  also have "\<dots> = sum_list (map (\<lambda>v. length (filter (\<lambda>c. status c = v) Couriers))
                       (remdups (map status Couriers)))"
    by (simp only: aggregate_counts sum_mset_sum_list)
  finally show "sum_list (map sc_count (aggregate_query Couriers)) = length Couriers"
    by (simp add: sum_group_sizes)
qed

lemma demo_aggregate:
  "aggregate_query demo_couriers =
     [\<lparr>sc_status = Some ''Delivered'', sc_count = 3, unique_customers = 2,
       earliest_order = Some 5, latest_order = Some 9\<rparr>,
      \<lparr>sc_status = Some ''Pending'', sc_count = 2, unique_customers = 2,
       earliest_order = Some 6, latest_order = Some 7\<rparr>]"
  by code_simp

text \<open>Three delivered and two pending orders: two rows, 3 before 2, and 3 + 2 = 5.\<close>

theorem aggregate_query_counts_witness:
  "map sc_status (aggregate_query demo_couriers) = [Some ''Delivered'', Some ''Pending'']
   \<and> length (filter (\<lambda>c. status c = Some ''Delivered'') demo_couriers) = 3
   \<and> sum_list (map sc_count (aggregate_query demo_couriers)) = 5"
proof -
  let ?r = "\<lparr>sc_status = Some ''Delivered'', sc_count = 3, unique_customers = 2,
             earliest_order = Some 5, latest_order = Some 9\<rparr>"
  have "?r \<in> set (aggregate_query demo_couriers)"
    by (simp add: demo_aggregate)
  with aggregate_query_counts [of demo_couriers]
  have "sc_count ?r = length (filter (\<lambda>c. status c = sc_status ?r) demo_couriers)"
    by blast
  moreover from aggregate_query_counts [of demo_couriers]
  have "sum_list (map sc_count (aggregate_query demo_couriers)) = length demo_couriers"
    by blast
  moreover have "length demo_couriers = 5"
    by (simp add: demo_couriers_def)
  ultimately show ?thesis
    by (simp add: demo_aggregate)
qed

subsection \<open>The customer-activity report\<close>

lemma left_join_Nil: "left_join on [] rs = []"
  by (simp add: left_join_def)

lemma left_join_Cons:
  "left_join on (l # ls) rs =
     (case sql_where (on l) rs of [] \<Rightarrow> [(l, None)] | m # ms \<Rightarrow> map (\<lambda>r. (l, Some r)) (m # ms))
     @ left_join on ls rs"
  by (simp add: left_join_def)

lemma left_join_fst: "fst ` set (left_join on ls rs) = set ls"
  by (induction ls) (auto simp: left_join_Nil left_join_Cons image_Un split: list.splits)

lemma filter_left_join:
  "filter (\<lambda>p. P (fst p)) (left_join on ls rs) = left_join on (filter P ls) rs"
  by (induction ls) (auto simp: left_join_Nil left_join_Cons split: list.splits)

lemma filter_key_left_join:
  "filter (\<lambda>p. g (fst p) = v) (left_join on ls rs) = left_join on (filter (\<lambda>l. g l = v) ls) rs"
  by (rule filter_left_join)

lemma count_left_join:
  "count_col (\<lambda>p. map_option f (snd p)) (left_join on ls rs)
     = sum_list (map (\<lambda>l. length (sql_where (on l) rs)) ls)"
  by (induction ls)
     (auto simp: left_join_Nil left_join_Cons count_col_def non_null_def comp_def split: list.splits)

lemma join_matches:
  "sql_where (\<lambda>c. sql_eq (Some x) (customer_id c)) cs = filter (\<lambda>c. customer_id c = Some x) cs"
  unfolding sql_where_def
  by (rule filter_cong) (auto simp: sql_eq_def split: option.splits)

lemma remdups_replicate_append: "remdups (replicate (Suc n) x @ ys) = remdups (x # ys)"
  by (induction n) auto

lemma left_join_keys_block:
  "\<exists>n. map (\<lambda>p. g (fst p))
         (case xs of [] \<Rightarrow> [(l, None)] | m # ms \<Rightarrow> map (\<lambda>r. (l, Some r)) (m # ms))
       = replicate (Suc n) (g l)"
proof (cases xs)
  case Nil
  then have "map (\<lambda>p. g (fst p))
         (case xs of [] \<Rightarrow> [(l, None)] | m # ms \<Rightarrow> map (\<lambda>r. (l, Some r)) (m # ms))
       = replicate (Suc 0) (g l)"
    by simp
  then show ?thesis ..
next
  case (Cons m ms)
  then have "map (\<lambda>p. g (fst p))
         (case xs of [] \<Rightarrow> [(l, None)] | m # ms \<Rightarrow> map (\<lambda>r. (l, Some r)) (m # ms))
       = replicate (Suc (length ms)) (g l)"
    by (simp add: comp_def map_replicate_const)
  then show ?thesis ..
qed

lemma left_join_keys:
  "remdups (map (\<lambda>p. g (fst p)) (left_join on ls rs)) = remdups (map g ls)"
proof (induction ls)
  case Nil
  then show ?case by (simp add: left_join_Nil)
next
  case (Cons l ls)
  obtain n where n: "map (\<lambda>p. g (fst p))
         (case sql_where (on l) rs of [] \<Rightarrow> [(l, None)] | m # ms \<Rightarrow> map (\<lambda>r. (l, Some r)) (m # ms))
       = replicate (Suc n) (g l)"
    using left_join_keys_block [where g = g and l = l and xs = "sql_where (on l) rs"] by (rule exE)
  have s: "set (map (\<lambda>p. g (fst p)) (left_join on ls rs)) = g ` set ls"
    using left_join_fst [of on ls rs] by (simp add: image_image [symmetric])
  have "remdups (map (\<lambda>p. g (fst p)) (left_join on (l # ls) rs))
      = remdups (replicate (Suc n) (g l) @ map (\<lambda>p. g (fst p)) (left_join on ls rs))"
    by (simp only: left_join_Cons map_append n)
  also have "\<dots> = remdups (g l # map (\<lambda>p. g (fst p)) (left_join on ls rs))"
    by (rule remdups_replicate_append)
  also have "\<dots> = remdups (map g (l # ls))"
    using Cons.IH s by simp
  finally show ?case .
qed

lemma activity_groups_unfold:
  "customer_activity_groups us cs =
     map (\<lambda>v. \<lparr>act_user_id = fst v,
                customer_name = fst (snd v),
                act_email = snd (snd v),
                total_orders = sum_list (map (\<lambda>u. length (orders_of cs (user_id u)))
                                  (filter (\<lambda>u. user_key u = v) us)),
                order_statuses = group_concat_distinct (\<lambda>(u, c). Option.bind c status)
                   (filter (\<lambda>p. user_key (fst p) = v)
                      (left_join (\<lambda>u c. sql_eq (Some (user_id u)) (customer_id c)) us cs))\<rparr>)
       (remdups (map user_key us))"
proof -
  let ?J = "left_join (\<lambda>u c. sql_eq (Some (user_id u)) (customer_id c)) us cs"
  have k: "(\<lambda>(u, c). (user_id u, name u, email u)) = (\<lambda>p. user_key (fst p))"
    by (auto simp: user_key_def)
  have c: "(\<lambda>(u, c). map_option courier_id c) = (\<lambda>p. map_option courier_id (snd p))"
    by auto
  have keys: "remdups (map (\<lambda>p. user_key (fst p)) ?J) = remdups (map user_key us)"
    by (rule left_join_keys)
  show ?thesis
    unfolding customer_activity_groups_def k c group_by_def
    by (simp add: keys comp_def filter_key_left_join count_left_join join_matches orders_of_def)
qed


lemma activity_groups_rows:
  "customer_activity_groups us cs = map (activity_row us cs) (remdups (map user_key us))"
  by (simp add: activity_groups_unfold activity_row_def)

lemma activity_row_id: "act_user_id (activity_row us cs (user_key u)) = user_id u"
  by (simp add: activity_row_def user_key_def)

lemma activity_row_zero:
  "total_orders (activity_row us cs v) = 0
   \<longleftrightarrow> (\<forall>u \<in> set us. user_key u = v \<longrightarrow> (\<forall>c \<in> set cs. customer_id c \<noteq> Some (user_id u)))"
  by (auto simp: activity_row_def orders_of_def filter_empty_conv)

lemma activity_row_positive:
  "0 < total_orders (activity_row us cs v)
   \<longleftrightarrow> (\<exists>u \<in> set us. user_key u = v \<and> (\<exists>c \<in> set cs. customer_id c = Some (user_id u)))"
proof -
  have "0 < total_orders (activity_row us cs v) \<longleftrightarrow> total_orders (activity_row us cs v) \<noteq> 0"
    by simp
  then show ?thesis
    unfolding activity_row_zero by blast
qed

lemma filter_eq_singleton: "distinct xs \<Longrightarrow> x \<in> set xs \<Longrightarrow> filter (\<lambda>y. y = x) xs = [x]"
  by (induction xs) (auto simp: filter_empty_conv)

lemma same_key_singleton:
  assumes "distinct (map user_id us)" and "u \<in> set us"
  shows "filter (\<lambda>w. user_key w = user_key u) us = [u]"
proof -
  from assms(1) have d: "distinct us" and i: "inj_on user_id (set us)"
    by (simp_all add: distinct_map)
  have "filter (\<lambda>w. user_key w = user_key u) us = filter (\<lambda>w. w = u) us"
  proof (rule filter_cong)
    fix w assume "w \<in> set us"
    with i assms(2) show "(user_key w = user_key u) = (w = u)"
      by (auto simp: user_key_def dest: inj_onD)
  qed simp
  with d assms(2) show ?thesis
    by (simp add: filter_eq_singleton)
qed

lemma activity_row_total:
  assumes "distinct (map user_id us)" and "u \<in> set us"
  shows "total_orders (activity_row us cs (user_key u)) = length (orders_of cs (user_id u))"
  by (simp add: activity_row_def same_key_singleton [OF assms])

lemma activity_groups_distinct:
  assumes "distinct (map user_id us)"
  shows "distinct (map act_user_id (customer_activity_groups us cs))"
proof -
  have m: "map act_user_id (customer_activity_groups us cs) = map fst (remdups (map user_key us))"
    by (simp add: activity_groups_rows activity_row_def comp_def)
  from assms have "inj_on user_id (set us)"
    by (simp add: distinct_map)
  then have "inj_on fst (user_key ` set us)"
    by (auto simp: inj_on_def user_key_def)
  then show ?thesis
    unfolding m by (simp add: distinct_map)
qed

text \<open>
  Claim C8. The statement of \<^verbatim>\<open>GET /customer-activity\<close> never returns a user
  without orders: every row has a positive \<^verbatim>\<open>total_orders\<close>, and the users returned
  are exactly those with at least one courier. The users without orders are removed
  after grouping: the groups hold every user, and \<^verbatim>\<open>HAVING\<close> keeps the groups of
  positive count. The rows are in descending order of \<^verbatim>\<open>total_orders\<close>. With
  \<^verbatim>\<open>user_id\<close> identifying its user, each such user has one row, whose
  \<^verbatim>\<open>total_orders\<close> is the number of couriers of that customer.
\<close>

theorem customer_activity_excludes_idle_users:
  "(\<forall>r \<in> set (customer_activity_query Users Couriers). 0 < total_orders r)
   \<and> act_user_id ` set (customer_activity_query Users Couriers) =
       {user_id u | u. u \<in> set Users \<and> (\<exists>c \<in> set Couriers. customer_id c = Some (user_id u))}
   \<and> act_user_id ` set (customer_activity_groups Users Couriers) = user_id ` set Users
   \<and> set (customer_activity_query Users Couriers) =
       {r \<in> set (customer_activity_groups Users Couriers). 0 < total_orders r}
   \<and> sorted (rev (map total_orders (customer_activity_query Users Couriers)))
   \<and> (distinct (map user_id Users) \<longrightarrow>
        distinct (map act_user_id (customer_activity_query Users Couriers))
        \<and> (\<forall>r \<in> set (customer_activity_query Users Couriers).
              total_orders r =
                length (filter (\<lambda>c. customer_id c = Some (act_user_id r)) Couriers)))"
proof (intro conjI impI)
  let ?Q = "customer_activity_query Users Couriers"
  let ?G = "customer_activity_groups Users Couriers"
  have Q: "set ?Q = {r \<in> set ?G. 0 < total_orders r}"
    by (simp add: customer_activity_query_def set_order_by_desc)
  have G: "set ?G = activity_row Users Couriers ` user_key ` set Users"
    by (simp add: activity_groups_rows)
  show "\<forall>r \<in> set ?Q. 0 < total_orders r"
    by (simp add: Q)
  show "act_user_id ` set ?Q =
       {user_id u | u. u \<in> set Users \<and> (\<exists>c \<in> set Couriers. customer_id c = Some (user_id u))}"
  proof (intro set_eqI iffI)
    fix x assume "x \<in> act_user_id ` set ?Q"
    then obtain u where u: "u \<in> set Users" and x: "x = act_user_id (activity_row Users Couriers (user_key u))"
      and p: "0 < total_orders (activity_row Users Couriers (user_key u))"
      by (auto simp: Q G)
    from p obtain w where "w \<in> set Users" "user_key w = user_key u"
        "\<exists>c \<in> set Couriers. customer_id c = Some (user_id w)"
      by (auto simp: activity_row_positive)
    moreover from x have "x = user_id u"
      by (simp only: activity_row_id)
    moreover from \<open>user_key w = user_key u\<close> have "user_id w = user_id u"
      by (simp add: user_key_def)
    moreover note u
    ultimately show "x \<in> {user_id u | u. u \<in> set Users \<and> (\<exists>c \<in> set Couriers. customer_id c = Some (user_id u))}"
      by auto
  next
    fix x assume "x \<in> {user_id u | u. u \<in> set Users \<and> (\<exists>c \<in> set Couriers. customer_id c = Some (user_id u))}"
    then obtain u where u: "u \<in> set Users" "x = user_id u"
        "\<exists>c \<in> set Couriers. customer_id c = Some (user_id u)"
      by blast
    then have "0 < total_orders (activity_row Users Couriers (user_key u))"
      by (auto simp: activity_row_positive)
    with u have "activity_row Users Couriers (user_key u) \<in> set ?Q"
      by (simp add: Q G)
    moreover have "act_user_id (activity_row Users Couriers (user_key u)) = x"
      using u by (simp add: activity_row_id)
    ultimately show "x \<in> act_user_id ` set ?Q"
      by (metis imageI)
  qed
  show "act_user_id ` set ?G = user_id ` set Users"
    by (simp add: G image_image activity_row_id)
  show "set ?Q = {r \<in> set ?G. 0 < total_orders r}"
    by (rule Q)
  show "sorted (rev (map total_orders ?Q))"
    by (simp add: customer_activity_query_def sorted_order_by_desc)
next
  assume d: "distinct (map user_id Users)"
  let ?Q = "customer_activity_query Users Couriers"
  let ?G = "customer_activity_groups Users Couriers"
  from activity_groups_distinct [OF d, of Couriers]
  show "distinct (map act_user_id ?Q)"
    by (simp add: customer_activity_query_def distinct_map_order_by_desc distinct_map_filter)
  show "\<forall>r \<in> set ?Q. total_orders r = length (filter (\<lambda>c. customer_id c = Some (act_user_id r)) Couriers)"
  proof
    fix r assume "r \<in> set ?Q"
    then have "r \<in> set ?G"
      by (simp add: customer_activity_query_def set_order_by_desc)
    then obtain u where u: "u \<in> set Users" and r: "r = activity_row Users Couriers (user_key u)"
      by (auto simp: activity_groups_rows)
    from activity_row_total [OF d u, of Couriers] r
    show "total_orders r = length (filter (\<lambda>c. customer_id c = Some (act_user_id r)) Couriers)"
      by (simp add: activity_row_id orders_of_def)
  qed
qed


lemma demo_activity:
  "customer_activity_query demo_users demo_couriers =
     [\<lparr>act_user_id = 1, customer_name = ''Asha'', act_email = ''asha@example.com'',
       total_orders = 2, order_statuses = Some ''Pending,Delivered''\<rparr>,
      \<lparr>act_user_id = 3, customer_name = ''Chen'', act_email = ''chen@example.com'',
       total_orders = 2, order_statuses = Some ''Delivered,Pending''\<rparr>]"
  by code_simp

text \<open>Bilal, who has no order, is not in the report; Asha and Chen are, with two orders each.\<close>

theorem customer_activity_excludes_idle_users_witness:
  "act_user_id ` set (customer_activity_query demo_users demo_couriers) = {1, 3}
   \<and> user_id bilal \<notin> act_user_id ` set (customer_activity_query demo_users demo_couriers)
   \<and> act_user_id ` set (customer_activity_groups demo_users demo_couriers) = {1, 2, 3}
   \<and> distinct (map act_user_id (customer_activity_query demo_users demo_couriers))
   \<and> length (filter (\<lambda>c. customer_id c = Some 3) demo_couriers) = 2"
proof -
  let ?chen = "\<lparr>act_user_id = 3, customer_name = ''Chen'', act_email = ''chen@example.com'',
                total_orders = 2, order_statuses = Some ''Delivered,Pending''\<rparr>"
  note T = customer_activity_excludes_idle_users [of demo_users demo_couriers]
  have d: "distinct (map user_id demo_users)"
    by (simp add: demo_users_def chen_def bilal_def asha_def)
  have r: "?chen \<in> set (customer_activity_query demo_users demo_couriers)"
    by (simp add: demo_activity)
  have m: "act_user_id ` set (customer_activity_query demo_users demo_couriers) = {1, 3}"
    by (simp add: demo_activity)
  from T have "act_user_id ` set (customer_activity_groups demo_users demo_couriers)
                 = user_id ` set demo_users"
    by blast
  then have g: "act_user_id ` set (customer_activity_groups demo_users demo_couriers) = {1, 2, 3}"
    by (auto simp: demo_users_def chen_def bilal_def asha_def)
  from T d have u: "distinct (map act_user_id (customer_activity_query demo_users demo_couriers))"
    by blast
  from T d r
  have "total_orders ?chen
          = length (filter (\<lambda>c. customer_id c = Some (act_user_id ?chen)) demo_couriers)"
    by blast
  then have n: "length (filter (\<lambda>c. customer_id c = Some 3) demo_couriers) = 2"
    by simp
  from m g u n show ?thesis
    by (simp add: bilal_def)
qed

end
